theory Spec2Isabelle
  imports Main "HOL-Library.List_Lexorder"
begin

section \<open>Python strings\<close>

text \<open>
  A Python \<open>str\<close> is a sequence of Unicode code points; it is modelled as a list of
  integers, one per code point, so that \<open>len\<close> is \<open>length\<close> and the comparison of two
  strings is the lexicographic order on lists. The character tables of the Python runtime
  (\<open>str.isspace\<close>, \<open>\d\<close>, \<open>\w\<close>, \<open>str.lower\<close>, \<open>str.upper\<close>) are written
  out for Basic Latin and Latin-1 (U+0000 to U+00FF), which holds every letter the
  patterns of the program name; the whitespace table is the complete one of CPython. A code
  point above U+00FF is a caseless character that is neither a digit nor a word character.
\<close>

type_synonym ustr = "int list"

definition u :: "string \<Rightarrow> ustr" where
  "u s = map of_char s"

definition is_space :: "int \<Rightarrow> bool" where
  "is_space c = ((9 \<le> c \<and> c \<le> 13) \<or> (28 \<le> c \<and> c \<le> 32) \<or> c = 133 \<or> c = 160
     \<or> c = 5760 \<or> (8192 \<le> c \<and> c \<le> 8202) \<or> c = 8232 \<or> c = 8233 \<or> c = 8239
     \<or> c = 8287 \<or> c = 12288)"

definition is_digit :: "int \<Rightarrow> bool" where
  "is_digit c = (48 \<le> c \<and> c \<le> 57)"

definition is_word :: "int \<Rightarrow> bool" where
  "is_word c = ((48 \<le> c \<and> c \<le> 57) \<or> (65 \<le> c \<and> c \<le> 90) \<or> c = 95
     \<or> (97 \<le> c \<and> c \<le> 122) \<or> c = 170 \<or> c = 178 \<or> c = 179 \<or> c = 181 \<or> c = 185
     \<or> c = 186 \<or> (188 \<le> c \<and> c \<le> 190) \<or> (192 \<le> c \<and> c \<le> 214)
     \<or> (216 \<le> c \<and> c \<le> 246) \<or> (248 \<le> c \<and> c \<le> 255))"

definition is_upper_char :: "int \<Rightarrow> bool" where
  "is_upper_char c = ((65 \<le> c \<and> c \<le> 90) \<or> (192 \<le> c \<and> c \<le> 222 \<and> c \<noteq> 215))"

definition is_lower_char :: "int \<Rightarrow> bool" where
  "is_lower_char c = ((97 \<le> c \<and> c \<le> 122) \<or> c = 170 \<or> c = 181 \<or> c = 186
     \<or> (223 \<le> c \<and> c \<le> 255 \<and> c \<noteq> 247))"

definition lower_char :: "int \<Rightarrow> int" where
  "lower_char c = (if is_upper_char c then c + 32 else c)"

text \<open>\<open>str.upper\<close> of one character; three Latin-1 letters leave the range.\<close>

definition upper_char :: "int \<Rightarrow> ustr" where
  "upper_char c =
     (if c = 223 then [83, 83] else if c = 181 then [924] else if c = 255 then [376]
      else if (97 \<le> c \<and> c \<le> 122) \<or> (224 \<le> c \<and> c \<le> 254 \<and> c \<noteq> 247) then [c - 32]
      else [c])"

definition title_char :: "int \<Rightarrow> ustr" where
  "title_char c = (if c = 223 then [83, 115] else upper_char c)"

definition py_lower :: "ustr \<Rightarrow> ustr" where
  "py_lower s = map lower_char s"

definition py_upper :: "ustr \<Rightarrow> ustr" where
  "py_upper s = concat (map upper_char s)"

definition py_capitalize :: "ustr \<Rightarrow> ustr" where
  "py_capitalize s = (case s of [] \<Rightarrow> [] | c # cs \<Rightarrow> title_char c @ py_lower cs)"

text \<open>\<open>str.isupper\<close>: no lowercase character and at least one uppercase character.\<close>

definition py_isupper :: "ustr \<Rightarrow> bool" where
  "py_isupper s = (\<not> list_ex is_lower_char s \<and> list_ex is_upper_char s)"

text \<open>\<open>s.strip()\<close> and \<open>s.strip(chars)\<close>.\<close>

definition strip_by :: "(int \<Rightarrow> bool) \<Rightarrow> ustr \<Rightarrow> ustr" where
  "strip_by P s = rev (dropWhile P (rev (dropWhile P s)))"

definition py_strip :: "ustr \<Rightarrow> ustr" where
  "py_strip s = strip_by is_space s"

definition py_strip_chars :: "ustr \<Rightarrow> ustr \<Rightarrow> ustr" where
  "py_strip_chars chars s = strip_by (\<lambda>c. c \<in> set chars) s"

text \<open>\<open>s.split(sep)\<close> for a one-character separator: never empty, \<open>[""]\<close> on \<open>""\<close>.\<close>

fun split_on :: "(int \<Rightarrow> bool) \<Rightarrow> ustr \<Rightarrow> ustr list" where
  "split_on P [] = [[]]"
| "split_on P (c # cs) =
     (if P c then [] # split_on P cs
      else (case split_on P cs of [] \<Rightarrow> [[c]] | w # ws \<Rightarrow> (c # w) # ws))"

definition py_split_nl :: "ustr \<Rightarrow> ustr list" where
  "py_split_nl s = split_on (\<lambda>c. c = 10) s"

text \<open>\<open>s.split()\<close>: the maximal runs of characters that are not whitespace.\<close>

definition py_split_ws :: "ustr \<Rightarrow> ustr list" where
  "py_split_ws s = filter (\<lambda>w. w \<noteq> []) (split_on is_space s)"

fun py_join :: "ustr \<Rightarrow> ustr list \<Rightarrow> ustr" where
  "py_join sep [] = []"
| "py_join sep [x] = x"
| "py_join sep (x # y # ys) = x @ sep @ py_join sep (y # ys)"

definition starts_with :: "ustr \<Rightarrow> ustr \<Rightarrow> bool" where
  "starts_with pre s = (take (length pre) s = pre)"

text \<open>\<open>sub in s\<close> and \<open>s.find(sub)\<close> (\<open>None\<close> stands for \<open>-1\<close>).\<close>

fun py_find :: "ustr \<Rightarrow> ustr \<Rightarrow> nat option" where
  "py_find sub [] = (if sub = [] then Some 0 else None)"
| "py_find sub (c # cs) =
     (if starts_with sub (c # cs) then Some 0 else map_option Suc (py_find sub cs))"

definition py_in :: "ustr \<Rightarrow> ustr \<Rightarrow> bool" where
  "py_in sub s = (py_find sub s \<noteq> None)"

text \<open>\<open>s.zfill(width)\<close>: zeros on the left, after a sign.\<close>

definition py_zfill :: "nat \<Rightarrow> ustr \<Rightarrow> ustr" where
  "py_zfill w s =
     (if w \<le> length s then s
      else (case s of
              c # cs \<Rightarrow> if c = 43 \<or> c = 45 then c # replicate (w - length s) 48 @ cs
                        else replicate (w - length s) 48 @ s
            | [] \<Rightarrow> replicate w 48))"

text \<open>The truth value of an optional string: \<open>None\<close> and \<open>""\<close> are false.\<close>

definition truthy :: "ustr option \<Rightarrow> bool" where
  "truthy v = (case v of None \<Rightarrow> False | Some s \<Rightarrow> s \<noteq> [])"

text \<open>\<open>list(dict.fromkeys(xs))\<close>: the distinct elements, each at its first occurrence.\<close>

fun fromkeys_acc :: "'a list \<Rightarrow> 'a list \<Rightarrow> 'a list" where
  "fromkeys_acc acc [] = acc"
| "fromkeys_acc acc (x # xs) =
     (if x \<in> set acc then fromkeys_acc acc xs else fromkeys_acc (acc @ [x]) xs)"

definition fromkeys :: "'a list \<Rightarrow> 'a list" where
  "fromkeys xs = fromkeys_acc [] xs"

text \<open>\<open>int(s)\<close> on a string of decimal digits.\<close>

definition int_of_digits :: "ustr \<Rightarrow> int" where
  "int_of_digits s = foldl (\<lambda>acc c. acc * 10 + (c - 48)) 0 s"

datatype error = TypeError | ValueError | AttributeError | KeyError

section \<open>Regular expressions\<close>

text \<open>
  The patterns of the program use literals, character classes, \<open>\d \s \w \b ^ $\<close>,
  groups, alternation, \<open>?\<close> on groups and characters, and \<open>* + {n}\<close> on single
  characters and classes only. \<open>rmatch\<close> is the backtracking matcher of Python's \<open>re\<close>
  on this fragment: from a position it returns every way the pattern matches, in the
  order backtracking tries them (left alternative first, greedy repetition longest
  first); the first one is the match Python reports. A position is the character before
  it (for \<open>\b\<close> and \<open>^\<close>), the text from it, and the groups bound so far.
\<close>

datatype citem = CDigit | CSpace | CWord | CChar int | CRange int int

fun citem_ok :: "citem \<Rightarrow> int \<Rightarrow> bool" where
  "citem_ok CDigit c = is_digit c"
| "citem_ok CSpace c = is_space c"
| "citem_ok CWord c = is_word c"
| "citem_ok (CChar a) c = (c = a)"
| "citem_ok (CRange a b) c = (a \<le> c \<and> c \<le> b)"

definition in_class :: "citem list \<Rightarrow> int \<Rightarrow> bool" where
  "in_class cs c = list_ex (\<lambda>i. citem_ok i c) cs"

datatype regex =
    RLit int
  | RLitI int
  | RAny "citem list"
  | RNone "citem list"
  | RSeq regex regex
  | RAlt regex regex
  | ROpt regex
  | RStar "citem list"
  | RGrp nat regex
  | RWordB
  | RBol
  | REol
  | REps

type_synonym groups = "(nat \<times> ustr) list"

type_synonym mstate = "int option \<times> ustr \<times> groups"

fun star_states :: "citem list \<Rightarrow> int option \<Rightarrow> ustr \<Rightarrow> (int option \<times> ustr) list" where
  "star_states cs p [] = [(p, [])]"
| "star_states cs p (x # xs) =
     (if in_class cs x then star_states cs (Some x) xs @ [(p, x # xs)] else [(p, x # xs)])"

definition word_opt :: "int option \<Rightarrow> bool" where
  "word_opt p = (case p of None \<Rightarrow> False | Some c \<Rightarrow> is_word c)"

definition head_opt :: "ustr \<Rightarrow> int option" where
  "head_opt r = (case r of [] \<Rightarrow> None | x # _ \<Rightarrow> Some x)"

fun rmatch :: "regex \<Rightarrow> mstate \<Rightarrow> mstate list" where
  "rmatch (RLit c) (p, r, g) =
     (case r of [] \<Rightarrow> [] | x # xs \<Rightarrow> if x = c then [(Some x, xs, g)] else [])"
| "rmatch (RLitI c) (p, r, g) =
     (case r of [] \<Rightarrow> [] | x # xs \<Rightarrow> if lower_char x = c then [(Some x, xs, g)] else [])"
| "rmatch (RAny cs) (p, r, g) =
     (case r of [] \<Rightarrow> [] | x # xs \<Rightarrow> if in_class cs x then [(Some x, xs, g)] else [])"
| "rmatch (RNone cs) (p, r, g) =
     (case r of [] \<Rightarrow> [] | x # xs \<Rightarrow> if in_class cs x then [] else [(Some x, xs, g)])"
| "rmatch (RSeq a b) st = concat (map (rmatch b) (rmatch a st))"
| "rmatch (RAlt a b) st = rmatch a st @ rmatch b st"
| "rmatch (ROpt a) st = rmatch a st @ [st]"
| "rmatch (RStar cs) (p, r, g) = map (\<lambda>(p', r'). (p', r', g)) (star_states cs p r)"
| "rmatch (RGrp n a) (p, r, g) =
     map (\<lambda>(p', r', g'). (p', r', (n, take (length r - length r') r) # g'))
       (rmatch a (p, r, g))"
| "rmatch RWordB (p, r, g) =
     (if word_opt p \<noteq> word_opt (head_opt r) then [(p, r, g)] else [])"
| "rmatch RBol (p, r, g) = (if p = None then [(p, r, g)] else [])"
| "rmatch REol (p, r, g) = (if r = [] \<or> r = [10] then [(p, r, g)] else [])"
| "rmatch REps st = [st]"

fun seqs :: "regex list \<Rightarrow> regex" where
  "seqs [] = REps"
| "seqs [r] = r"
| "seqs (r # rs) = RSeq r (seqs rs)"

fun alts :: "regex list \<Rightarrow> regex" where
  "alts [] = RAny []"
| "alts [r] = r"
| "alts (r # rs) = RAlt r (alts rs)"

definition lit :: "ustr \<Rightarrow> regex" where
  "lit s = seqs (map RLit s)"

definition liti :: "ustr \<Rightarrow> regex" where
  "liti s = seqs (map RLitI s)"

definition repn :: "nat \<Rightarrow> regex \<Rightarrow> regex" where
  "repn n r = seqs (replicate n r)"

definition plus :: "citem list \<Rightarrow> regex" where
  "plus cs = RSeq (RAny cs) (RStar cs)"

abbreviation dg :: regex where
  "dg \<equiv> RAny [CDigit]"

text \<open>
  A match object: the text skipped before the match, the matched text (group 0), the
  groups, and the position after the match. \<open>m.group(k)\<close> is \<open>None\<close> for a group that
  took no part in the match.
\<close>

type_synonym rematch = "ustr \<times> ustr \<times> groups \<times> int option \<times> ustr"

definition group0 :: "rematch \<Rightarrow> ustr" where
  "group0 m = fst (snd m)"

definition group :: "rematch \<Rightarrow> nat \<Rightarrow> ustr option" where
  "group m k = map_of (fst (snd (snd m))) k"

fun re_search_from :: "regex \<Rightarrow> int option \<Rightarrow> ustr \<Rightarrow> rematch option" where
  "re_search_from re p [] =
     (case rmatch re (p, [], []) of [] \<Rightarrow> None | (p', r', g) # _ \<Rightarrow> Some ([], [], g, p', r'))"
| "re_search_from re p (x # xs) =
     (case rmatch re (p, x # xs, []) of
        (p', r', g) # _ \<Rightarrow> Some ([], take (length (x # xs) - length r') (x # xs), g, p', r')
      | [] \<Rightarrow> (case re_search_from re (Some x) xs of
                 None \<Rightarrow> None
               | Some (pre, rest) \<Rightarrow> Some (x # pre, rest)))"

definition re_search :: "regex \<Rightarrow> ustr \<Rightarrow> rematch option" where
  "re_search re s = re_search_from re None s"

text \<open>\<open>re.match\<close>: a match at the start of the string only.\<close>

definition re_match :: "regex \<Rightarrow> ustr \<Rightarrow> rematch option" where
  "re_match re s =
     (case rmatch re (None, s, []) of
        [] \<Rightarrow> None
      | (p', r', g) # _ \<Rightarrow> Some ([], take (length s - length r') s, g, p', r'))"

text \<open>
  \<open>re.finditer\<close>: the matches from left to right, each search starting where the last
  match ended. After an empty match the scan moves on by one character; no pattern of
  the program matches the empty string.
\<close>

function re_finditer_from :: "regex \<Rightarrow> int option \<Rightarrow> ustr \<Rightarrow> rematch list" where
  "re_finditer_from re p r =
     (case re_search_from re p r of
        None \<Rightarrow> []
      | Some (pre, m, g, p', r') \<Rightarrow>
          (pre, m, g, p', r') #
            (if length r' < length r then re_finditer_from re p' r'
             else (case r of [] \<Rightarrow> [] | x # xs \<Rightarrow> re_finditer_from re (Some x) xs)))"
  by pat_completeness auto
termination
  by (relation "measure (\<lambda>(re, p, r). length r)") auto

definition re_finditer :: "regex \<Rightarrow> ustr \<Rightarrow> rematch list" where
  "re_finditer re s = re_finditer_from re None s"

text \<open>\<open>re.findall\<close> for a pattern with one group: the texts of group 1.\<close>

definition re_findall1 :: "regex \<Rightarrow> ustr \<Rightarrow> ustr list" where
  "re_findall1 re s =
     map (\<lambda>m. case group m 1 of None \<Rightarrow> [] | Some t \<Rightarrow> t) (re_finditer re s)"

text \<open>\<open>re.sub(pattern, repl, s)\<close> for a replacement text without group references.\<close>

function re_sub_from :: "regex \<Rightarrow> ustr \<Rightarrow> int option \<Rightarrow> ustr \<Rightarrow> ustr" where
  "re_sub_from re repl p r =
     (case re_search_from re p r of
        None \<Rightarrow> r
      | Some (pre, m, g, p', r') \<Rightarrow>
          pre @ repl @
            (if length r' < length r then re_sub_from re repl p' r'
             else (case r of [] \<Rightarrow> [] | x # xs \<Rightarrow> x # re_sub_from re repl (Some x) xs)))"
  by pat_completeness auto
termination
  by (relation "measure (\<lambda>(re, repl, p, r). length r)") auto

definition re_sub :: "regex \<Rightarrow> ustr \<Rightarrow> ustr \<Rightarrow> ustr" where
  "re_sub re repl s = re_sub_from re repl None s"

section \<open>Dates (estructurar\_cv.py)\<close>

text \<open>\<open>MESES_ES\<close>, a dictionary in insertion order.\<close>

definition MESES_ES :: "(ustr \<times> ustr) list" where
  "MESES_ES =
     [(u ''enero'', u ''01''), (u ''febrero'', u ''02''), (u ''marzo'', u ''03''),
      (u ''abril'', u ''04''), (u ''mayo'', u ''05''), (u ''junio'', u ''06''),
      (u ''julio'', u ''07''), (u ''agosto'', u ''08''), (u ''septiembre'', u ''09''),
      (u ''octubre'', u ''10''), (u ''noviembre'', u ''11''), (u ''diciembre'', u ''12'')]"

text \<open>
  \<open>datetime.strptime(s, "%Y-%m")\<close>, as CPython's \<open>_strptime\<close> computes it: a value that
  is not a string is a \<open>TypeError\<close>; the format becomes the pattern
  \<open>(?P<Y>\d\d\d\d)-(?P<m>1[0-2]|0[1-9]|[1-9])\<close>, matched at the start of the string; no
  match, or text left after the match, is a \<open>ValueError\<close>; so is the year 0, which
  \<open>datetime\<close> refuses. The result is the year and the month.
\<close>

definition PATRON_STRPTIME :: regex where
  "PATRON_STRPTIME =
     seqs [RGrp 1 (repn 4 dg), RLit 45,
           RGrp 2 (alts [RSeq (RLit 49) (RAny [CRange 48 50]),
                         RSeq (RLit 48) (RAny [CRange 49 57]),
                         RAny [CRange 49 57]])]"

definition strptime :: "ustr option \<Rightarrow> error + (int \<times> int)" where
  "strptime data =
     (case data of
        None \<Rightarrow> Inl TypeError
      | Some s \<Rightarrow>
          (case re_match PATRON_STRPTIME s of
             None \<Rightarrow> Inl ValueError
           | Some m \<Rightarrow>
               if length s \<noteq> length (group0 m) then Inl ValueError
               else (case (group m 1, group m 2) of
                       (Some y, Some mo) \<Rightarrow>
                         if int_of_digits y < 1 then Inl ValueError
                         else Inr (int_of_digits y, int_of_digits mo)
                     | _ \<Rightarrow> Inl TypeError)))"

text \<open>
  \<open>calcular_duracion_meses(inicio, fin)\<close>. The first argument of the model is the year
  and month that \<open>datetime.now()\<close> reads. Every exception of the body is caught and
  turned into \<open>None\<close>.
\<close>

definition calcular_duracion_meses :: "int \<times> int \<Rightarrow> ustr option \<Rightarrow> ustr option \<Rightarrow> int option" where
  "calcular_duracion_meses now inicio fin =
     (case strptime inicio of
        Inl e \<Rightarrow> None
      | Inr d_inicio \<Rightarrow>
          (case (if truthy fin \<and> map_option py_lower fin \<noteq> Some (u ''presente'')
                 then strptime fin else Inr now) of
             Inl e \<Rightarrow> None
           | Inr d_fin \<Rightarrow>
               Some (max 0 ((fst d_fin - fst d_inicio) * 12 + (snd d_fin - snd d_inicio)))))"


text \<open>The patterns of \<open>extraer_fechas_de_linea\<close>, in the order the function tries them.\<close>

definition anio :: regex where
  "anio = RAlt (seqs [lit (u ''20''), dg, dg]) (seqs [lit (u ''19''), dg, dg])"

text \<open>\<open>\b(\d{2})/(\d{2})/(\d{4})\b\<close>\<close>

definition PATRON_DMY :: regex where
  "PATRON_DMY =
     seqs [RWordB, RGrp 1 (repn 2 dg), RLit 47, RGrp 2 (repn 2 dg), RLit 47,
           RGrp 3 (repn 4 dg), RWordB]"

text \<open>\<open>\b(20\d{2}|19\d{2})\s*[-X]\s*(20\d{2}|19\d{2})\b\<close>, where \<open>X\<close> stands for the
  en dash U+2013.\<close>

definition PATRON_RANGO :: regex where
  "PATRON_RANGO =
     seqs [RWordB, RGrp 1 anio, RStar [CSpace], RAny [CChar 45, CChar 8211], RStar [CSpace],
           RGrp 2 anio, RWordB]"

text \<open>\<open>\b(\d{2})\s*[-/]\s*(\d{4})\b\<close>\<close>

definition PATRON_MES_ANIO :: regex where
  "PATRON_MES_ANIO =
     seqs [RWordB, RGrp 1 (repn 2 dg), RStar [CSpace], RAny [CChar 45, CChar 47],
           RStar [CSpace], RGrp 2 (repn 4 dg), RWordB]"

text \<open>\<open>\b{mes_nombre}\b\s+(\d{4})\b\<close>\<close>

definition patron_nombre_mes :: "ustr \<Rightarrow> regex" where
  "patron_nombre_mes mes_nombre =
     seqs [RWordB, lit mes_nombre, RWordB, plus [CSpace], RGrp 1 (repn 4 dg), RWordB]"

text \<open>\<open>\b(20\d{2}|19\d{2})\b\<close>\<close>

definition PATRON_ANIO :: regex where
  "PATRON_ANIO = seqs [RWordB, RGrp 1 anio, RWordB]"

text \<open>\<open>\b(actual|presente|la\s+fecha|vigente|hoy)\b\<close>\<close>

definition PATRON_ACTUAL :: regex where
  "PATRON_ACTUAL =
     seqs [RWordB,
           RGrp 1 (alts [lit (u ''actual''), lit (u ''presente''),
                         seqs [lit (u ''la''), plus [CSpace], lit (u ''fecha'')],
                         lit (u ''vigente''), lit (u ''hoy'')]),
           RWordB]"

text \<open>\<open>\d{4}-\d{2}\<close>, used with \<open>re.match\<close>.\<close>

definition PATRON_YM :: regex where
  "PATRON_YM = seqs [repn 4 dg, RLit 45, repn 2 dg]"

definition es_ym :: "ustr \<Rightarrow> bool" where
  "es_ym s = (re_match PATRON_YM s \<noteq> None)"

text \<open>An f-string prints \<open>None\<close> for a group that took no part in the match.\<close>

definition fmt :: "ustr option \<Rightarrow> ustr" where
  "fmt v = (case v of None \<Rightarrow> u ''None'' | Some s \<Rightarrow> s)"

text \<open>A loop that appends one token per match; the first exception ends it.\<close>

fun collect :: "('a \<Rightarrow> error + 'b) \<Rightarrow> 'a list \<Rightarrow> error + 'b list" where
  "collect f [] = Inr []"
| "collect f (m # ms) =
     (case f m of
        Inl e \<Rightarrow> Inl e
      | Inr t \<Rightarrow> (case collect f ms of Inl e \<Rightarrow> Inl e | Inr ts \<Rightarrow> Inr (t # ts)))"

text \<open>Pattern 0: \<open>fechas.append(f"{m.group(3)}-{m.group(2).zfill(2)}")\<close>; \<open>zfill\<close> on
  \<open>None\<close> is an \<open>AttributeError\<close>.\<close>

definition fechas_dmy :: "ustr \<Rightarrow> error + ustr list" where
  "fechas_dmy linea =
     collect (\<lambda>m. case group m 2 of
                     None \<Rightarrow> Inl AttributeError
                   | Some g2 \<Rightarrow> Inr (fmt (group m 3) @ [45] @ py_zfill 2 g2))
       (re_finditer PATRON_DMY linea)"

text \<open>Pattern 0b: \<open>fechas = [m.group(1), m.group(2)]\<close> for the first match. A \<open>None\<close>
  in this list would reach \<open>re.match\<close> at the end of the function, a \<open>TypeError\<close>.\<close>

definition fechas_rango :: "ustr \<Rightarrow> error + ustr list" where
  "fechas_rango linea =
     (case re_search PATRON_RANGO linea of
        None \<Rightarrow> Inr []
      | Some m \<Rightarrow> (case (group m 1, group m 2) of
                     (Some a, Some b) \<Rightarrow> Inr [a, b]
                   | _ \<Rightarrow> Inl TypeError))"

text \<open>Pattern 1: \<open>fechas.append(f"{m.group(2)}-{m.group(1).zfill(2)}")\<close>.\<close>

definition fechas_mes_anio :: "ustr \<Rightarrow> error + ustr list" where
  "fechas_mes_anio linea =
     collect (\<lambda>m. case group m 1 of
                     None \<Rightarrow> Inl AttributeError
                   | Some g1 \<Rightarrow> Inr (fmt (group m 2) @ [45] @ py_zfill 2 g1))
       (re_finditer PATRON_MES_ANIO linea)"

text \<open>Pattern 2: the months by decreasing length of their names (\<open>sorted\<close> is stable),
  and for each month its matches in the lowercased line.\<close>

definition meses_ordenados :: "(ustr \<times> ustr) list" where
  "meses_ordenados = sort_key (\<lambda>x. - int (length (fst x))) MESES_ES"

definition fechas_nombre_mes :: "ustr \<Rightarrow> ustr list" where
  "fechas_nombre_mes texto =
     concat (map (\<lambda>(mes_nombre, mes_num).
                    map (\<lambda>m. fmt (group m 1) @ [45] @ mes_num)
                      (re_finditer (patron_nombre_mes mes_nombre) texto))
               meses_ordenados)"

text \<open>Pattern 3: \<open>list(dict.fromkeys(re.findall(...)))\<close>.\<close>

definition fechas_solo_anio :: "ustr \<Rightarrow> ustr list" where
  "fechas_solo_anio linea = fromkeys (re_findall1 PATRON_ANIO linea)"

text \<open>The last step: two tokens that both start as \<open>YYYY-MM\<close> are put in order.\<close>

definition garantizar_orden :: "ustr list \<Rightarrow> ustr list" where
  "garantizar_orden fechas =
     (case fechas of
        [a, b] \<Rightarrow> if es_ym a \<and> es_ym b \<and> a > b then [b, a] else fechas
      | _ \<Rightarrow> fechas)"

definition extraer_fechas_de_linea :: "ustr \<Rightarrow> error + (ustr list \<times> bool)" where
  "extraer_fechas_de_linea linea =
     (let texto = py_lower linea in
      case fechas_dmy linea of
        Inl e \<Rightarrow> Inl e
      | Inr f0 \<Rightarrow>
     (case (if f0 = [] then fechas_rango linea else Inr f0) of
        Inl e \<Rightarrow> Inl e
      | Inr f1 \<Rightarrow>
     (case (if f1 = [] then fechas_mes_anio linea else Inr f1) of
        Inl e \<Rightarrow> Inl e
      | Inr f2 \<Rightarrow>
          (let f3 = (if f2 = [] then fechas_nombre_mes texto else f2);
               f4 = (if f3 = [] then fechas_solo_anio linea else f3);
               es_actual = (re_search PATRON_ACTUAL texto \<noteq> None)
           in Inr (garantizar_orden f4, es_actual)))))"

section \<open>Line classifiers (estructurar\_cv.py)\<close>

text \<open>The month names in the order the patterns list them.\<close>

definition nombres_meses :: "regex list" where
  "nombres_meses =
     [lit (u ''enero''), lit (u ''febrero''), lit (u ''marzo''), lit (u ''abril''),
      lit (u ''mayo''), lit (u ''junio''), lit (u ''julio''), lit (u ''agosto''),
      lit (u ''septiembre''), lit (u ''octubre''), lit (u ''noviembre''),
      lit (u ''diciembre'')]"

text \<open>
  The pattern of \<open>es_linea_solo_fechas\<close>:
  \<open>(\d{2}[-/]\d{4}|\b(20|19)\d{2}\b|\b(enero|...|diciembre)\b|\b(actual|presente|la\s+fecha|vigente)\b|[XY\-/\s])\<close>,
  where \<open>X\<close> and \<open>Y\<close> stand for the en dash U+2013 and the em dash U+2014.
\<close>

definition PATRON_SOLO_FECHAS :: regex where
  "PATRON_SOLO_FECHAS =
     RGrp 1 (alts
       [seqs [dg, dg, RAny [CChar 45, CChar 47], dg, dg, dg, dg],
        seqs [RWordB, RGrp 2 (RAlt (lit (u ''20'')) (lit (u ''19''))), dg, dg, RWordB],
        seqs [RWordB, RGrp 3 (alts nombres_meses), RWordB],
        seqs [RWordB,
              RGrp 4 (alts [lit (u ''actual''), lit (u ''presente''),
                            seqs [lit (u ''la''), plus [CSpace], lit (u ''fecha'')],
                            lit (u ''vigente'')]),
              RWordB],
        RAny [CChar 8211, CChar 8212, CChar 45, CChar 47, CSpace]])"

definition es_linea_solo_fechas :: "ustr \<Rightarrow> bool" where
  "es_linea_solo_fechas linea =
     (let linea_sin_fechas = py_strip (re_sub PATRON_SOLO_FECHAS [] (py_lower linea))
      in length linea_sin_fechas \<le> 5)"

definition CARGOS_KEYWORDS :: "ustr list" where
  "CARGOS_KEYWORDS =
     [u ''auditor'', u ''coordinador'', u ''gerente'', u ''director'', u ''analista'',
      u ''contador'', u ''contadora'', u ''jefe'', u ''supervisor'', u ''lider'',
      u ''l'' @ [237] @ u ''der'',
      u ''asistente'', u ''profesional'', u ''asesor'', u ''revisor'', u ''subgerente'',
      u ''tesorero'', u ''auxiliar'', u ''practicante'', u ''pasante'', u ''ingeniero'',
      u ''administrador'', u ''ejecutivo'', u ''consultor'', u ''socio'',
      u ''representante'']"

definition EMPRESAS_SUFIJOS :: "ustr list" where
  "EMPRESAS_SUFIJOS =
     [u ''sas'', u ''sa'', u ''s.a.s'', u ''ltda'', u ''s.a'', u ''e.s.e'', u ''e.i.c.e'',
      u ''epm'', u ''grupo'', u ''banco'', u ''universidad'', u ''corporacion'',
      u ''fundacion'', u ''ministerio'', u ''alcaldia'', u ''gobernacion'']"

text \<open>
  The first-person verbs of \<open>es_probable_cargo\<close>:
  \<open>\b(particip[eE]|realic[eE]|apoy[eE]|desarroll[eE]|elabor[eE]|ejecut[eE]|gestion[eE]|coordin[eE]|supervis[eE]|implement[eE]|consolidE|me\s+desempeN)\b\<close>,
  where \<open>E\<close> stands for e with acute accent (U+00E9) and \<open>N\<close> for n with tilde (U+00F1).
\<close>

definition e_acento :: regex where
  "e_acento = RAny [CChar 101, CChar 233]"

definition PATRON_VERBOS :: regex where
  "PATRON_VERBOS =
     seqs [RWordB,
           RGrp 1 (alts
             [RSeq (lit (u ''particip'')) e_acento, RSeq (lit (u ''realic'')) e_acento,
              RSeq (lit (u ''apoy'')) e_acento, RSeq (lit (u ''desarroll'')) e_acento,
              RSeq (lit (u ''elabor'')) e_acento, RSeq (lit (u ''ejecut'')) e_acento,
              RSeq (lit (u ''gestion'')) e_acento, RSeq (lit (u ''coordin'')) e_acento,
              RSeq (lit (u ''supervis'')) e_acento, RSeq (lit (u ''implement'')) e_acento,
              lit (u ''consolid'' @ [233]),
              seqs [lit (u ''me''), plus [CSpace], lit (u ''desempe'' @ [241])]]),
           RWordB]"

definition es_probable_cargo :: "ustr \<Rightarrow> bool" where
  "es_probable_cargo linea =
     (let linea_l = py_strip (py_lower linea) in
      if length linea > 80 \<or> es_linea_solo_fechas linea then False
      else if re_search PATRON_VERBOS linea_l \<noteq> None then False
      else (let palabras = py_split_ws linea_l;
                primeras = py_join [32] (take 4 palabras)
            in list_ex (\<lambda>k. py_in k primeras \<or> (py_in k linea_l \<and> length palabras \<le> 5))
                 CARGOS_KEYWORDS))"

text \<open>
  \<open>^[A-ZV][A-ZVa-zv\s&.,]+$\<close>, where \<open>V\<close> stands for the six capital letters with accent
  or tilde of Spanish and \<open>v\<close> for the six small ones.
\<close>

definition MAYUSCULAS :: "citem list" where
  "MAYUSCULAS = [CRange 65 90, CChar 193, CChar 201, CChar 205, CChar 211, CChar 218, CChar 209]"

definition MINUSCULAS :: "citem list" where
  "MINUSCULAS = [CRange 97 122, CChar 225, CChar 233, CChar 237, CChar 243, CChar 250, CChar 241]"

definition PATRON_NOMBRE_PROPIO :: regex where
  "PATRON_NOMBRE_PROPIO =
     seqs [RBol, RAny MAYUSCULAS,
           plus (MAYUSCULAS @ MINUSCULAS @ [CSpace, CChar 38, CChar 46, CChar 44]), REol]"

definition es_probable_empresa :: "ustr \<Rightarrow> bool" where
  "es_probable_empresa linea =
     (let linea_l = py_lower linea in
      list_ex (\<lambda>s. py_in s linea_l) EMPRESAS_SUFIJOS
      \<or> (py_isupper linea \<and> 3 < length linea \<and> length linea < 80)
      \<or> (re_match PATRON_NOMBRE_PROPIO (py_strip linea) \<noteq> None \<and> length linea < 80))"

section \<open>The optional enrichment (nlp\_spacy.py and its import in estructurar\_cv.py)\<close>

text \<open>
  What the import at the top of estructurar\_cv.py leaves behind. \<open>ImportFallido\<close>: the
  statement \<open>from nlp_spacy import ...\<close> raised \<open>ImportError\<close> and the four stub
  functions of the \<open>except\<close> branch are in place. \<open>SinSpacy\<close>: the module was imported
  and \<open>cargar_modelo\<close> caught \<open>ImportError\<close> from \<open>import spacy\<close>. \<open>SinModelo\<close>:
  \<open>cargar_modelo\<close> caught \<open>OSError\<close> from \<open>spacy.load\<close>. \<open>Cargado ner\<close>: the model was
  loaded; \<open>ner\<close> is the entity recogniser, from a text to the entities of the document as
  pairs of label and text. In the last three cases the functions are those of nlp\_spacy.py,
  with \<open>_SPACY_DISPONIBLE\<close> true only in the last.
\<close>

datatype nlp_env = ImportFallido | SinSpacy | SinModelo | Cargado "ustr \<Rightarrow> (ustr \<times> ustr) list"

definition spacy_disponible :: "nlp_env \<Rightarrow> bool" where
  "spacy_disponible env = (case env of Cargado ner \<Rightarrow> True | _ \<Rightarrow> False)"

text \<open>\<open>es_organizacion_spacy\<close>: \<open>None\<close> without a model; the coverage test
  \<open>len(ent.text) / len(linea_clean) > 0.5\<close> is written on the integers.\<close>

definition es_organizacion_spacy :: "nlp_env \<Rightarrow> ustr \<Rightarrow> bool option" where
  "es_organizacion_spacy env linea =
     (case env of
        Cargado ner \<Rightarrow>
          (let linea_clean = py_strip linea in
           if length linea_clean < 3 \<or> length linea_clean > 80 then Some False
           else Some (list_ex (\<lambda>ent. fst ent = u ''ORG''
                                  \<and> length linea_clean < 2 * length (snd ent))
                        (ner linea_clean)))
      | _ \<Rightarrow> None)"

text \<open>\<open>extraer_entidades\<close>: for each label the distinct stripped texts, in order.\<close>

definition anotar_entidad :: "(ustr \<rightharpoonup> ustr list) \<Rightarrow> ustr \<times> ustr \<Rightarrow> (ustr \<rightharpoonup> ustr list)" where
  "anotar_entidad resultado ent =
     (let tipo = fst ent;
          vistos = (case resultado tipo of None \<Rightarrow> [] | Some l \<Rightarrow> l);
          texto_ent = py_strip (snd ent)
      in resultado(tipo \<mapsto> (if texto_ent \<noteq> [] \<and> texto_ent \<notin> set vistos
                              then vistos @ [texto_ent] else vistos)))"

definition extraer_entidades :: "nlp_env \<Rightarrow> ustr \<Rightarrow> (ustr \<rightharpoonup> ustr list)" where
  "extraer_entidades env texto =
     (case env of
        Cargado ner \<Rightarrow> foldl anotar_entidad Map.empty (ner (take 100000 texto))
      | _ \<Rightarrow> Map.empty)"

text \<open>\<open>separar_empresa_cargo_guion\<close>; the separator is \<open>\s+[-X]\s+\<close> with \<open>X\<close> the en
  dash, and \<open>re.split\<close> with \<open>maxsplit=1\<close> cuts at its first match.\<close>

definition PATRON_GUION :: regex where
  "PATRON_GUION = seqs [plus [CSpace], RAny [CChar 45, CChar 8211], plus [CSpace]]"

definition separar_empresa_cargo_guion :: "nlp_env \<Rightarrow> ustr \<Rightarrow> ustr option \<times> ustr option" where
  "separar_empresa_cargo_guion env linea =
     (case env of
        ImportFallido \<Rightarrow> (None, None)
      | _ \<Rightarrow>
          (case re_search PATRON_GUION linea of
             None \<Rightarrow> (None, None)
           | Some (pre, m, g, p', post) \<Rightarrow>
               (let parte_izq = py_strip pre; parte_der = py_strip post in
                if length parte_izq > 60 \<or> length parte_der > 60 then (None, None)
                else if spacy_disponible env then
                  (let izq_es_org = (es_organizacion_spacy env parte_izq = Some True);
                       der_es_org = (es_organizacion_spacy env parte_der = Some True)
                   in if izq_es_org \<and> \<not> der_es_org then (Some parte_izq, Some parte_der)
                      else if der_es_org \<and> \<not> izq_es_org then (Some parte_der, Some parte_izq)
                      else (Some parte_izq, Some parte_der))
                else (Some parte_izq, Some parte_der))))"

section \<open>The experience reconstructor (estructurar\_cv.py)\<close>

text \<open>
  A job is a dictionary with six keys. The state of the scan is the list \<open>trabajos\<close>, the
  open job \<open>trabajo_actual\<close>, the pending responsibilities (the variable
  \<open>responsabilidades\<close> of the source, here \<open>pendientes\<close>) and \<open>linea_anterior\<close>.
\<close>

record trabajo =
  empresa :: "ustr option"
  cargo :: "ustr option"
  fecha_inicio :: "ustr option"
  fecha_fin :: "ustr option"
  duracion_meses :: "int option"
  responsabilidades :: "ustr list"

record estado =
  trabajos :: "trabajo list"
  trabajo_actual :: "trabajo option"
  pendientes :: "ustr list"
  linea_anterior :: "ustr option"

definition nuevo_trabajo ::
  "ustr option \<Rightarrow> ustr option \<Rightarrow> ustr option \<Rightarrow> ustr option \<Rightarrow> trabajo" where
  "nuevo_trabajo e c i f =
     \<lparr>empresa = e, cargo = c, fecha_inicio = i, fecha_fin = f, duracion_meses = None,
      responsabilidades = []\<rparr>"

text \<open>\<open>v and re.match(r"\d{4}-\d{2}", v)\<close>\<close>

definition es_ym_opt :: "ustr option \<Rightarrow> bool" where
  "es_ym_opt v = (case v of None \<Rightarrow> False | Some s \<Rightarrow> s \<noteq> [] \<and> es_ym s)"

text \<open>
  \<open>cerrar_trabajo\<close>. The dictionary appended to \<open>trabajos\<close> is the one \<open>trabajo_actual\<close>
  still names; every caller binds \<open>trabajo_actual\<close> to a new dictionary before anything
  writes to it again, so the appended job is final.
\<close>

definition cerrar_trabajo :: "int \<times> int \<Rightarrow> estado \<Rightarrow> estado" where
  "cerrar_trabajo now st =
     (case trabajo_actual st of
        None \<Rightarrow> st
      | Some t \<Rightarrow>
          (let t1 = t\<lparr>responsabilidades := pendientes st\<rparr>;
               ini = fecha_inicio t1;
               fin = fecha_fin t1;
               t2 = (if es_ym_opt ini \<and> es_ym_opt fin
                     then t1\<lparr>duracion_meses := calcular_duracion_meses now ini fin\<rparr>
                     else t1)
           in st\<lparr>trabajos := trabajos st @ [t2], trabajo_actual := Some t2,
                 pendientes := []\<rparr>))"

text \<open>
  The pattern that removes the dates from a line, with \<open>re.IGNORECASE\<close>:
  \<open>(\d{2}\s*[-/]\s*\d{4}|\b(20|19)\d{2}\b\s*[XY\-]?\s*\b(20|19)\d{2}\b|\b(20|19)\d{2}\b|\b(enero|...|diciembre)\b)\<close>.
\<close>

definition nombres_meses_i :: "regex list" where
  "nombres_meses_i =
     [liti (u ''enero''), liti (u ''febrero''), liti (u ''marzo''), liti (u ''abril''),
      liti (u ''mayo''), liti (u ''junio''), liti (u ''julio''), liti (u ''agosto''),
      liti (u ''septiembre''), liti (u ''octubre''), liti (u ''noviembre''),
      liti (u ''diciembre'')]"

definition PATRON_QUITAR_FECHAS :: regex where
  "PATRON_QUITAR_FECHAS =
     RGrp 1 (alts
       [seqs [dg, dg, RStar [CSpace], RAny [CChar 45, CChar 47], RStar [CSpace], dg, dg, dg, dg],
        seqs [RWordB, RGrp 2 (RAlt (lit (u ''20'')) (lit (u ''19''))), dg, dg, RWordB,
              RStar [CSpace], ROpt (RAny [CChar 8211, CChar 8212, CChar 45]), RStar [CSpace],
              RWordB, RGrp 3 (RAlt (lit (u ''20'')) (lit (u ''19''))), dg, dg, RWordB],
        seqs [RWordB, RGrp 4 (RAlt (lit (u ''20'')) (lit (u ''19''))), dg, dg, RWordB],
        seqs [RWordB, RGrp 5 (alts nombres_meses_i), RWordB]])"

text \<open>\<open>" XY-/,"\<close>, the characters of \<open>strip\<close> after the removal.\<close>

definition BORDES :: ustr where
  "BORDES = [32, 8211, 8212, 45, 47, 44]"

text \<open>\<open>^[\d]+[.\-\)]\s*\<close>, the enumerator in front of a responsibility, and \<open>"B-X "\<close>
  with \<open>B\<close> the bullet U+2022.\<close>

definition PATRON_ENUMERADOR :: regex where
  "PATRON_ENUMERADOR =
     seqs [RBol, plus [CDigit], RAny [CChar 46, CChar 45, CChar 41], RStar [CSpace]]"

definition VINETAS :: ustr where
  "VINETAS = [8226, 45, 8211, 32]"

text \<open>\<open>fechas[0] if fechas else None\<close> and
  \<open>fechas[1] if len(fechas) > 1 else ("presente" if es_actual else None)\<close>\<close>

definition fecha_de_inicio :: "ustr list \<Rightarrow> ustr option" where
  "fecha_de_inicio fechas = (case fechas of [] \<Rightarrow> None | f # _ \<Rightarrow> Some f)"

definition fecha_de_fin :: "ustr list \<Rightarrow> bool \<Rightarrow> ustr option" where
  "fecha_de_fin fechas es_actual =
     (case fechas of
        _ # f # _ \<Rightarrow> Some f
      | _ \<Rightarrow> if es_actual then Some (u ''presente'') else None)"

definition cargo_opt :: "ustr option \<Rightarrow> bool" where
  "cargo_opt v = (case v of None \<Rightarrow> False | Some s \<Rightarrow> s \<noteq> [] \<and> es_probable_cargo s)"

text \<open>Case 1 of the loop: a company with its dates on the same line.\<close>

definition rama_empresa_con_fechas ::
  "int \<times> int \<Rightarrow> estado \<Rightarrow> ustr list \<Rightarrow> bool \<Rightarrow> ustr \<Rightarrow> estado" where
  "rama_empresa_con_fechas now st fechas es_actual linea_sin_fechas =
     (cerrar_trabajo now st)
       \<lparr>trabajo_actual :=
          Some (nuevo_trabajo (Some (py_strip linea_sin_fechas)) None
                  (fecha_de_inicio fechas) (fecha_de_fin fechas es_actual))\<rparr>"

text \<open>Case 2: a line of dates only, after some other line.\<close>

definition rama_bloque_fechas :: "int \<times> int \<Rightarrow> estado \<Rightarrow> ustr list \<Rightarrow> bool \<Rightarrow> estado" where
  "rama_bloque_fechas now st fechas es_actual =
     (let inicio = fecha_de_inicio fechas; fin = fecha_de_fin fechas es_actual in
      case trabajo_actual st of
        None \<Rightarrow> (cerrar_trabajo now st)\<lparr>trabajo_actual := Some (nuevo_trabajo None None inicio fin)\<rparr>
      | Some t \<Rightarrow>
          (let t1 = (if \<not> truthy (fecha_inicio t) then t\<lparr>fecha_inicio := inicio\<rparr> else t);
               t2 = (if \<not> truthy (fecha_fin t1)
                     then t1\<lparr>fecha_fin := (if truthy fin then fin
                                            else if es_actual then Some (u ''presente'')
                                            else None)\<rparr>
                     else t1);
               t3 = (if cargo_opt (linea_anterior st) \<and> \<not> truthy (cargo t2)
                     then t2\<lparr>cargo := linea_anterior st\<rparr> else t2)
           in st\<lparr>trabajo_actual := Some t3\<rparr>))"

text \<open>The line is a probable title.\<close>

definition rama_cargo :: "int \<times> int \<Rightarrow> estado \<Rightarrow> ustr \<Rightarrow> estado" where
  "rama_cargo now st linea =
     (case trabajo_actual st of
        None \<Rightarrow> st\<lparr>trabajo_actual := Some (nuevo_trabajo None (Some linea) None None)\<rparr>
      | Some t \<Rightarrow>
          if \<not> truthy (cargo t) then
            (let t1 = (if \<not> truthy (empresa t) \<and> truthy (linea_anterior st)
                          \<and> \<not> (case linea_anterior st of None \<Rightarrow> False
                                 | Some a \<Rightarrow> es_linea_solo_fechas a)
                          \<and> \<not> cargo_opt (linea_anterior st)
                       then t\<lparr>empresa := linea_anterior st\<rparr> else t)
             in st\<lparr>trabajo_actual := Some (t1\<lparr>cargo := Some linea\<rparr>)\<rparr>)
          else (cerrar_trabajo now st)
                 \<lparr>trabajo_actual := Some (nuevo_trabajo None (Some linea) None None)\<rparr>)"

text \<open>Any other line while a job is open: its company, or a responsibility.\<close>

definition rama_resto :: "estado \<Rightarrow> trabajo \<Rightarrow> ustr \<Rightarrow> estado" where
  "rama_resto st t linea =
     (if \<not> truthy (empresa t) \<and> \<not> truthy (cargo t) \<and> length linea < 70
      then st\<lparr>trabajo_actual := Some (t\<lparr>empresa := Some linea\<rparr>)\<rparr>
      else if \<not> truthy (empresa t) \<and> truthy (cargo t) \<and> es_probable_empresa linea
      then st\<lparr>trabajo_actual := Some (t\<lparr>empresa := Some linea\<rparr>)\<rparr>
      else (let resp = py_strip_chars VINETAS (re_sub PATRON_ENUMERADOR [] linea) in
            if resp \<noteq> [] \<and> length resp > 8 then st\<lparr>pendientes := pendientes st @ [resp]\<rparr>
            else st))"

text \<open>The body of the loop over the lines.\<close>

definition procesar_linea :: "nlp_env \<Rightarrow> int \<times> int \<Rightarrow> estado \<Rightarrow> ustr \<Rightarrow> error + estado" where
  "procesar_linea env now st linea =
     (case extraer_fechas_de_linea linea of
        Inl e \<Rightarrow> Inl e
      | Inr (fechas, es_actual) \<Rightarrow>
          (let solo_fechas = es_linea_solo_fechas linea;
               linea_sin_fechas =
                 py_strip_chars BORDES (re_sub PATRON_QUITAR_FECHAS [] linea);
               guion = (if \<not> solo_fechas \<and> fechas = []
                        then separar_empresa_cargo_guion env linea else (None, None))
           in if \<not> solo_fechas \<and> fechas = [] \<and> truthy (fst guion) \<and> truthy (snd guion)
              then Inr ((cerrar_trabajo now st)
                          \<lparr>trabajo_actual := Some (nuevo_trabajo (fst guion) (snd guion) None None),
                           linea_anterior := Some linea\<rparr>)
              else
                (let tiene_fechas_inline =
                       (1 \<le> length fechas \<and> \<not> solo_fechas \<and> length linea_sin_fechas > 3);
                     es_emp_con_fechas =
                       (tiene_fechas_inline
                        \<and> (es_probable_empresa linea_sin_fechas
                           \<or> es_probable_cargo linea_sin_fechas));
                     es_bloque_fechas =
                       (solo_fechas \<and> 1 \<le> length fechas \<and> linea_anterior st \<noteq> None);
                     st1 =
                       (if es_emp_con_fechas
                        then rama_empresa_con_fechas now st fechas es_actual linea_sin_fechas
                        else if es_bloque_fechas then rama_bloque_fechas now st fechas es_actual
                        else if es_probable_cargo linea \<and> \<not> solo_fechas
                        then rama_cargo now st linea
                        else (case trabajo_actual st of
                                None \<Rightarrow> st
                              | Some t \<Rightarrow> if \<not> solo_fechas then rama_resto st t linea else st))
                 in Inr (st1\<lparr>linea_anterior := Some linea\<rparr>))))"

fun bucle_lineas :: "nlp_env \<Rightarrow> int \<times> int \<Rightarrow> estado \<Rightarrow> ustr list \<Rightarrow> error + estado" where
  "bucle_lineas env now st [] = Inr st"
| "bucle_lineas env now st (linea # lineas) =
     (case procesar_linea env now st linea of
        Inl e \<Rightarrow> Inl e
      | Inr st' \<Rightarrow> bucle_lineas env now st' lineas)"

definition estado_inicial :: estado where
  "estado_inicial = \<lparr>trabajos = [], trabajo_actual = None, pendientes = [], linea_anterior = None\<rparr>"

text \<open>The jobs closed by the scan and by the last \<open>cerrar_trabajo()\<close> after it: the
  list \<open>trabajos\<close> before it is filtered.\<close>

definition trabajos_cerrados :: "nlp_env \<Rightarrow> int \<times> int \<Rightarrow> ustr \<Rightarrow> error + trabajo list" where
  "trabajos_cerrados env now texto =
     (let lineas = filter (\<lambda>l. l \<noteq> []) (map py_strip (py_split_nl texto)) in
      case bucle_lineas env now estado_inicial lineas of
        Inl e \<Rightarrow> Inl e
      | Inr st \<Rightarrow> Inr (trabajos (cerrar_trabajo now st)))"

text \<open>\<open>enriquecer_trabajos_con_nlp\<close>, job by job.\<close>

definition indice_cargo :: "ustr \<Rightarrow> ustr list \<Rightarrow> nat option" where
  "indice_cargo cargo20 lineas =
     (case filter (\<lambda>i. py_in cargo20 (lineas ! i)) [0..<length lineas] of
        [] \<Rightarrow> None
      | i # _ \<Rightarrow> Some i)"

definition enriquecer_trabajo :: "nlp_env \<Rightarrow> ustr list \<Rightarrow> ustr \<Rightarrow> trabajo \<Rightarrow> trabajo" where
  "enriquecer_trabajo env orgs_encontradas texto_seccion t =
     (if truthy (empresa t) then t
      else case cargo t of
        None \<Rightarrow> t
      | Some c \<Rightarrow>
          if c = [] then t
          else
            (let lineas = py_split_nl texto_seccion in
             case indice_cargo (take 20 c) lineas of
               None \<Rightarrow> t
             | Some idx_cargo \<Rightarrow>
                 (let ventana = drop (idx_cargo - 3) (take (idx_cargo + 3) lineas);
                      candidatas = filter (\<lambda>l. l \<noteq> [] \<and> l \<noteq> c
                                              \<and> es_organizacion_spacy env l = Some True)
                                     (map py_strip ventana)
                  in case candidatas of
                       l # _ \<Rightarrow> t\<lparr>empresa := Some l\<rparr>
                     | [] \<Rightarrow>
                         (case filter (\<lambda>org.
                                  case (py_find org texto_seccion,
                                        py_find (take 20 c) texto_seccion) of
                                    (Some idx_org, Some idx_c) \<Rightarrow>
                                      abs (int idx_org - int idx_c) < 300
                                  | _ \<Rightarrow> False) orgs_encontradas of
                            org # _ \<Rightarrow> t\<lparr>empresa := Some org\<rparr>
                          | [] \<Rightarrow> t))))"

definition enriquecer_trabajos_con_nlp :: "nlp_env \<Rightarrow> trabajo list \<Rightarrow> ustr \<Rightarrow> trabajo list" where
  "enriquecer_trabajos_con_nlp env ts texto_seccion =
     (if \<not> spacy_disponible env \<or> ts = [] then ts
      else (let orgs_encontradas =
                  (case extraer_entidades env texto_seccion (u ''ORG'') of
                     None \<Rightarrow> [] | Some l \<Rightarrow> l)
            in if orgs_encontradas = [] then ts
               else map (enriquecer_trabajo env orgs_encontradas texto_seccion) ts))"

definition parsear_experiencia :: "nlp_env \<Rightarrow> int \<times> int \<Rightarrow> ustr \<Rightarrow> error + trabajo list" where
  "parsear_experiencia env now texto =
     (if py_strip texto = [] then Inr []
      else case trabajos_cerrados env now texto of
             Inl e \<Rightarrow> Inl e
           | Inr ts \<Rightarrow>
               (let trabajos_limpios = filter (\<lambda>t. truthy (cargo t) \<or> truthy (empresa t)) ts
                in Inr (enriquecer_trabajos_con_nlp env trabajos_limpios texto)))"

section \<open>The other extractors and the result (estructurar\_cv.py)\<close>

text \<open>An education entry is a dictionary that starts empty and gets its keys one by one:
  a list of keys and values in insertion order.\<close>

type_synonym entrada = "(ustr \<times> ustr option) list"

definition dict_get :: "entrada \<Rightarrow> ustr \<Rightarrow> ustr option" where
  "dict_get d k = (case map_of d k of None \<Rightarrow> None | Some v \<Rightarrow> v)"

definition dict_set :: "entrada \<Rightarrow> ustr \<Rightarrow> ustr option \<Rightarrow> entrada" where
  "dict_set d k v =
     (if k \<in> set (map fst d) then map (\<lambda>kv. if fst kv = k then (k, v) else kv) d
      else d @ [(k, v)])"

text \<open>\<open>\b(19|20)\d{2}\b\<close>\<close>

definition PATRON_ANIO_EDUCACION :: regex where
  "PATRON_ANIO_EDUCACION =
     seqs [RWordB, RGrp 1 (RAlt (lit (u ''19'')) (lit (u ''20''))), dg, dg, RWordB]"

definition instituciones_keywords :: "ustr list" where
  "instituciones_keywords =
     [u ''universidad'', u ''corporacion'', u ''corporaci'' @ [243] @ u ''n'', u ''instituto'',
      u ''colegio'', u ''sena'', u ''escuela'', u ''politecnico'']"

definition titulos_keywords :: "ustr list" where
  "titulos_keywords =
     [u ''contador'', u ''administrador'', u ''ingeniero'', u ''licenciado'', u ''tecnico'',
      u ''tecn'' @ [243] @ u ''logo'', u ''diplomado'', u ''especialista'', u ''magister'']"

definition K_TITULO :: ustr where
  "K_TITULO = u ''titulo''"

definition K_INSTITUCION :: ustr where
  "K_INSTITUCION = u ''institucion''"

text \<open>The key \<open>a\<close>, n with tilde, \<open>o\<close>.\<close>

definition K_ANIO :: ustr where
  "K_ANIO = [97, 241, 111]"

definition paso_educacion :: "entrada list \<times> entrada \<Rightarrow> ustr \<Rightarrow> entrada list \<times> entrada" where
  "paso_educacion st linea =
     (let entradas = fst st;
          entrada_actual = snd st;
          anio = re_search PATRON_ANIO_EDUCACION linea;
          es_institucion = list_ex (\<lambda>k. py_in k (py_lower linea)) instituciones_keywords;
          es_titulo = list_ex (\<lambda>k. py_in k (py_lower linea)) titulos_keywords
      in case (if es_institucion then None else anio) of
           Some m \<Rightarrow>
             ((if entrada_actual \<noteq> [] then entradas @ [entrada_actual] else entradas),
              [(K_TITULO, None), (K_INSTITUCION, None), (K_ANIO, Some (group0 m))])
         | None \<Rightarrow>
             if es_titulo \<and> \<not> truthy (dict_get entrada_actual K_TITULO)
             then (entradas, dict_set entrada_actual K_TITULO (Some linea))
             else if es_institucion \<and> \<not> truthy (dict_get entrada_actual K_INSTITUCION)
             then (entradas, dict_set entrada_actual K_INSTITUCION (Some linea))
             else (entradas, entrada_actual))"

definition parsear_educacion :: "ustr \<Rightarrow> entrada list" where
  "parsear_educacion texto =
     (if py_strip texto = [] then []
      else (let lineas = filter (\<lambda>l. l \<noteq> []) (map py_strip (py_split_nl texto));
                st = foldl paso_educacion ([], []) lineas
            in if snd st \<noteq> [] then fst st @ [snd st] else fst st))"

text \<open>\<open>re.split(r"[\n,;B\-]", texto)\<close>, with \<open>B\<close> the bullet U+2022: a cut at every
  character of the class.\<close>

definition parsear_habilidades :: "ustr \<Rightarrow> ustr list" where
  "parsear_habilidades texto =
     (if py_strip texto = [] then []
      else (let items = split_on (\<lambda>c. c \<in> set [10, 44, 59, 8226, 45]) texto
            in map (\<lambda>i. py_capitalize (py_strip i))
                 (filter (\<lambda>i. length (py_strip i) > 2) items)))"

definition parsear_cursos :: "ustr \<Rightarrow> ustr list" where
  "parsear_cursos texto = parsear_habilidades texto"

text \<open>
  The contact dictionary has the keys \<open>email\<close> and \<open>telefono\<close> only when they were found.
  \<open>[a-zA-Z0-9._%+\-]+@[a-zA-Z0-9.\-]+\.[a-zA-Z]{2,}\<close> and
  \<open>\b3\d{2}[-\s]?\d{3}[-\s]?\d{2}[-\s]?\d{2}\b\<close>; the phone loses the characters of
  \<open>[-\s]\<close>.
\<close>

record contacto =
  email :: "ustr option"
  telefono :: "ustr option"

definition LETRAS :: "citem list" where
  "LETRAS = [CRange 97 122, CRange 65 90]"

definition PATRON_EMAIL :: regex where
  "PATRON_EMAIL =
     seqs [plus (LETRAS @ [CRange 48 57, CChar 46, CChar 95, CChar 37, CChar 43, CChar 45]),
           RLit 64, plus (LETRAS @ [CRange 48 57, CChar 46, CChar 45]), RLit 46,
           RAny LETRAS, RAny LETRAS, RStar LETRAS]"

definition SEPARADOR :: "citem list" where
  "SEPARADOR = [CChar 45, CSpace]"

definition PATRON_TELEFONO :: regex where
  "PATRON_TELEFONO =
     seqs [RWordB, RLit 51, dg, dg, ROpt (RAny SEPARADOR), dg, dg, dg, ROpt (RAny SEPARADOR),
           dg, dg, ROpt (RAny SEPARADOR), dg, dg, RWordB]"

definition parsear_contacto_desde_perfil :: "ustr \<Rightarrow> contacto" where
  "parsear_contacto_desde_perfil texto_completo =
     \<lparr>email = map_option group0 (re_search PATRON_EMAIL texto_completo),
      telefono = map_option (\<lambda>m. re_sub (RAny SEPARADOR) [] (group0 m))
                   (re_search PATRON_TELEFONO texto_completo)\<rparr>"

text \<open>
  \<open>calcular_a\~nos_experiencia\<close>: \<open>round(total_meses / 12, 1)\<close>. The model returns the
  number of tenths of a year, an integer: the quotient rounded to the nearest tenth, a tie
  (which a float represents exactly) to the even one.
\<close>

definition calcular_anios_experiencia :: "trabajo list \<Rightarrow> int" where
  "calcular_anios_experiencia ts =
     (let total_meses = sum_list (map (\<lambda>t. case duracion_meses t of None \<Rightarrow> 0 | Some d \<Rightarrow> d) ts);
          q = (total_meses * 5) div 6;
          r = (total_meses * 5) mod 6
      in if r < 3 then q else if 3 < r then q + 1 else if even q then q else q + 1)"

definition SKILLS_TECNICAS :: "ustr list" where
  "SKILLS_TECNICAS =
     [u ''niif'', u ''ifrs'', u ''nia'', u ''nias'', u ''excel'', u ''sap'', u ''siigo'',
      u ''world office'', u ''contaplus'', u ''sql'', u ''power bi'', u ''tableau'',
      u ''iso 14001'', u ''iso 9001'', u ''coso'', u ''cobit'', u ''auditoria'',
      u ''contabilidad'', u ''tributaria'', u ''nomina'', u ''presupuesto'', u ''tesoreria'',
      u ''cartera'', u ''costos'', u ''gestion de riesgos'']"

definition SKILLS_BLANDAS :: "ustr list" where
  "SKILLS_BLANDAS =
     [u ''liderazgo'', u ''comunicacion'', u ''trabajo en equipo'', u ''analitico'', u ''etica'',
      u ''proactividad'', u ''organizacion'', u ''resolucion de problemas'',
      u ''adaptabilidad'']"

text \<open>
  \<open>limpiar_para_comparacion\<close> (limpiar.py). \<open>unicodedata.normalize("NFKD", ...)\<close> followed
  by \<open>encode("ascii", "ignore")\<close> keeps, for each character, the ASCII characters of its
  compatibility decomposition; that table of the runtime is the parameter \<open>nfkd\<close>.
\<close>

definition limpiar_para_comparacion :: "(int \<Rightarrow> ustr) \<Rightarrow> ustr \<Rightarrow> ustr" where
  "limpiar_para_comparacion nfkd texto =
     (let t1 = concat (map nfkd texto);
          t2 = py_lower t1;
          t3 = re_sub (RNone [CWord, CSpace]) [32] t2;
          t4 = re_sub (plus [CSpace]) [32] t3
      in py_strip t4)"

definition extraer_skills_del_texto :: "(int \<Rightarrow> ustr) \<Rightarrow> ustr \<Rightarrow> ustr list \<times> ustr list" where
  "extraer_skills_del_texto nfkd texto_completo =
     (let texto_norm = limpiar_para_comparacion nfkd texto_completo
      in (map py_upper (filter (\<lambda>s. py_in s texto_norm) SKILLS_TECNICAS),
          map py_capitalize (filter (\<lambda>s. py_in s texto_norm) SKILLS_BLANDAS)))"

text \<open>The result of \<open>estructurar_cv\<close>; \<open>skills_detectadas\<close> is the pair of the lists
  \<open>tecnicas\<close> and \<open>blandas\<close>, the total is in tenths of a year.\<close>

record cv =
  cv_contacto :: contacto
  perfil_resumen :: ustr
  experiencia :: "trabajo list"
  educacion :: "entrada list"
  habilidades :: "ustr list"
  skills_detectadas :: "ustr list \<times> ustr list"
  cursos :: "ustr list"
  referencias :: ustr
  anios_experiencia_total :: int
  cantidad_empleos :: nat

text \<open>\<open>secciones.get(clave, "")\<close>\<close>

definition seccion_get :: "(string \<rightharpoonup> ustr) \<Rightarrow> string \<Rightarrow> ustr" where
  "seccion_get secciones clave = (case secciones clave of None \<Rightarrow> [] | Some v \<Rightarrow> v)"

definition estructurar_cv ::
  "nlp_env \<Rightarrow> int \<times> int \<Rightarrow> (int \<Rightarrow> ustr) \<Rightarrow> (string \<rightharpoonup> ustr) \<Rightarrow> ustr \<Rightarrow> error + cv" where
  "estructurar_cv env now nfkd secciones texto_completo =
     (case parsear_experiencia env now (seccion_get secciones ''experiencia'') of
        Inl e \<Rightarrow> Inl e
      | Inr exper \<Rightarrow>
          Inr \<lparr>cv_contacto = parsear_contacto_desde_perfil texto_completo,
               perfil_resumen = py_strip (seccion_get secciones ''perfil''),
               experiencia = exper,
               educacion = parsear_educacion (seccion_get secciones ''educacion''),
               habilidades = parsear_habilidades (seccion_get secciones ''habilidades''),
               skills_detectadas = extraer_skills_del_texto nfkd texto_completo,
               cursos = parsear_cursos (seccion_get secciones ''cursos''),
               referencias = py_strip (seccion_get secciones ''referencias''),
               anios_experiencia_total = calcular_anios_experiencia exper,
               cantidad_empleos = length exper\<rparr>)"

section \<open>The section segmenter (seccionesHV\_nlp.py)\<close>













section \<open>Notions used in the statements\<close>

text \<open>The groups that take part in every match of a pattern.\<close>

fun binds :: "regex \<Rightarrow> nat set" where
  "binds (RSeq a b) = binds a \<union> binds b"
| "binds (RAlt a b) = binds a \<inter> binds b"
| "binds (RGrp n a) = insert n (binds a)"
| "binds r = {}"








section \<open>The matcher\<close>

declare re_finditer_from.simps [simp del]

declare re_sub_from.simps [simp del]

lemma rmatch_groups_mono:
  "st' \<in> set (rmatch re st) \<Longrightarrow> k \<in> fst ` set (snd (snd st)) \<Longrightarrow> k \<in> fst ` set (snd (snd st'))"
proof (induction re arbitrary: st st')
  case (RSeq a b)
  from RSeq.prems(1) obtain st1 where s1: "st1 \<in> set (rmatch a st)" and s2: "st' \<in> set (rmatch b st1)"
    by auto
  from RSeq.IH(1)[OF s1 RSeq.prems(2)] have "k \<in> fst ` set (snd (snd st1))" .
  from RSeq.IH(2)[OF s2 this] show ?case .
next
  case (RAlt a b)
  from RAlt.prems(1) have "st' \<in> set (rmatch a st) \<or> st' \<in> set (rmatch b st)" by simp
  with RAlt.IH RAlt.prems(2) show ?case by blast
next
  case (ROpt a)
  from ROpt.prems(1) have "st' \<in> set (rmatch a st) \<or> st' = st" by auto
  with ROpt.IH ROpt.prems(2) show ?case by blast
next
  case (RGrp n a)
  obtain p r g where st: "st = (p, r, g)" by (cases st)
  with RGrp.prems(1) obtain p' r' g' where
    m: "(p', r', g') \<in> set (rmatch a (p, r, g))" and
    st': "st' = (p', r', (n, take (length r - length r') r) # g')"
    by auto
  from RGrp.IH[OF m] RGrp.prems(2) st have "k \<in> fst ` set g'" by simp
  with st' show ?case by simp
next
  case (RLit c)
  obtain p r g where st: "st = (p, r, g)" by (cases st)
  with RLit show ?case by (auto split: list.splits if_splits)
next
  case (RLitI c)
  obtain p r g where st: "st = (p, r, g)" by (cases st)
  with RLitI show ?case by (auto split: list.splits if_splits)
next
  case (RAny cs)
  obtain p r g where st: "st = (p, r, g)" by (cases st)
  with RAny show ?case by (auto split: list.splits if_splits)
next
  case (RNone cs)
  obtain p r g where st: "st = (p, r, g)" by (cases st)
  with RNone show ?case by (auto split: list.splits if_splits)
next
  case (RStar cs)
  obtain p r g where st: "st = (p, r, g)" by (cases st)
  with RStar show ?case by auto
next
  case RWordB
  obtain p r g where st: "st = (p, r, g)" by (cases st)
  with RWordB show ?case by (auto split: if_splits)
next
  case RBol
  obtain p r g where st: "st = (p, r, g)" by (cases st)
  with RBol show ?case by (auto split: if_splits)
next
  case REol
  obtain p r g where st: "st = (p, r, g)" by (cases st)
  with REol show ?case by (auto split: if_splits)
next
  case REps
  then show ?case by simp
qed

lemma rmatch_binds:
  "st' \<in> set (rmatch re st) \<Longrightarrow> k \<in> binds re \<Longrightarrow> k \<in> fst ` set (snd (snd st'))"
proof (induction re arbitrary: st st')
  case (RSeq a b)
  from RSeq.prems(1) obtain st1 where s1: "st1 \<in> set (rmatch a st)" and s2: "st' \<in> set (rmatch b st1)"
    by auto
  from RSeq.prems(2) consider "k \<in> binds a" | "k \<in> binds b" by auto
  then show ?case
  proof cases
    case 1
    with RSeq.IH(1) s1 have "k \<in> fst ` set (snd (snd st1))" by blast
    with s2 show ?thesis by (rule rmatch_groups_mono)
  next
    case 2
    with RSeq.IH(2) s2 show ?thesis by blast
  qed
next
  case (RAlt a b)
  from RAlt.prems(1) have "st' \<in> set (rmatch a st) \<or> st' \<in> set (rmatch b st)" by simp
  moreover from RAlt.prems(2) have "k \<in> binds a" "k \<in> binds b" by simp_all
  ultimately show ?case using RAlt.IH by blast
next
  case (RGrp n a)
  obtain p r g where st: "st = (p, r, g)" by (cases st)
  with RGrp.prems(1) obtain p' r' g' where
    m: "(p', r', g') \<in> set (rmatch a (p, r, g))" and
    st': "st' = (p', r', (n, take (length r - length r') r) # g')"
    by auto
  show ?case
  proof (cases "k = n")
    case True
    with st' show ?thesis by simp
  next
    case False
    with RGrp.prems(2) have "k \<in> binds a" by simp
    from RGrp.IH[OF m this] have "k \<in> fst ` set g'" by simp
    with st' show ?thesis by simp
  qed
qed simp_all

lemma re_search_from_binds:
  "re_search_from re p r = Some m \<Longrightarrow> k \<in> binds re \<Longrightarrow> group m k \<noteq> None"
proof (induction r arbitrary: p m)
  case Nil
  then obtain p' r' g rest where h: "rmatch re (p, [], []) = (p', r', g) # rest" and m: "m = ([], [], g, p', r')"
    by (auto split: list.splits)
  from h have "(p', r', g) \<in> set (rmatch re (p, [], []))" by simp
  from rmatch_binds[OF this Nil.prems(2)] m show ?case
    by (simp add: group_def map_of_eq_None_iff)
next
  case (Cons x xs)
  show ?case
  proof (cases "rmatch re (p, x # xs, [])")
    case Nil
    with Cons.prems(1) obtain m1 where s: "re_search_from re (Some x) xs = Some m1"
      and m: "m = (x # fst m1, snd m1)"
      by (auto split: option.splits)
    from Cons.IH[OF s Cons.prems(2)] m show ?thesis
      by (simp add: group_def)
  next
    case (Cons st rest)
    obtain p' r' g where st: "st = (p', r', g)" by (cases st)
    with Cons Cons.prems(1) have m: "m = ([], take (length (x # xs) - length r') (x # xs), g, p', r')"
      by simp
    from Cons st have "(p', r', g) \<in> set (rmatch re (p, x # xs, []))" by simp
    from rmatch_binds[OF this Cons.prems(2)] m show ?thesis
      by (simp add: group_def map_of_eq_None_iff)
  qed
qed

lemma re_finditer_from_binds:
  "m \<in> set (re_finditer_from re p r) \<Longrightarrow> k \<in> binds re \<Longrightarrow> group m k \<noteq> None"
proof (induction re p r rule: re_finditer_from.induct)
  case (1 re p r)
  show ?case
  proof (cases "re_search_from re p r")
    case None
    with "1.prems"(1) show ?thesis by (subst (asm) re_finditer_from.simps) simp
  next
    case (Some m0)
    obtain pre t g p' r' where m0: "m0 = (pre, t, g, p', r')" by (cases m0) auto
    from "1.prems"(1) Some m0 have
      "m = m0 \<or> (length r' < length r \<and> m \<in> set (re_finditer_from re p' r'))
        \<or> (\<not> length r' < length r \<and> (\<exists>x xs. r = x # xs \<and> m \<in> set (re_finditer_from re (Some x) xs)))"
      by (subst (asm) re_finditer_from.simps) (auto split: if_splits list.splits)
    then show ?thesis
    proof (elim disjE conjE exE)
      assume "m = m0"
      with Some re_search_from_binds "1.prems"(2) show ?thesis by blast
    next
      assume a: "length r' < length r" "m \<in> set (re_finditer_from re p' r')"
      from "1.IH"(1)[OF Some _ _ _ _ a(1) a(2) "1.prems"(2)] m0 show ?thesis by simp
    next
      fix x xs assume a: "\<not> length r' < length r" "r = x # xs" "m \<in> set (re_finditer_from re (Some x) xs)"
      from "1.IH"(2)[OF Some _ _ _ _ a(1) a(2) a(3) "1.prems"(2)] m0 show ?thesis by simp
    qed
  qed
qed







section \<open>The duration calculator\<close>























section \<open>The date extractor\<close>





text \<open>
  C1 fails on the code: the line \<open>2025-2023\<close> is a range of two bare years; the extractor
  returns them as they stand, the later year first.
\<close>

theorem extraer_fechas_anios_sin_ordenar:
  "extraer_fechas_de_linea (u ''2025-2023'') = Inr ([u ''2025'', u ''2023''], False)
   \<and> \<not> (u ''2025'' \<le> u ''2023'')"
  by code_simp

text \<open>Two tokens that both start as \<open>YYYY-MM\<close> are returned in order.\<close>

lemma extraer_fechas_ym_ordenadas:
  assumes "extraer_fechas_de_linea l = Inr ([a, b], f)" "es_ym a" "es_ym b"
  shows "a \<le> b"
proof -
  from assms(1) obtain f4 where g: "garantizar_orden f4 = [a, b]"
    by (auto simp: extraer_fechas_de_linea_def Let_def split: sum.splits)
  with assms(2,3) show ?thesis
    by (auto simp: garantizar_orden_def split: list.splits if_splits)
qed

lemma collect_ok:
  "(\<And>m. m \<in> set ms \<Longrightarrow> \<exists>t. f m = Inr t) \<Longrightarrow> \<exists>ts. collect f ms = Inr ts"
proof (induction ms)
  case Nil
  then show ?case by simp
next
  case (Cons m ms)
  from Cons.prems obtain t where t: "f m = Inr t" by auto
  from Cons obtain ts where "collect f ms = Inr ts" by auto
  with t show ?case by simp
qed

lemma fechas_dmy_ok: "\<exists>c. fechas_dmy l = Inr c"
proof -
  have b: "2 \<in> binds PATRON_DMY"
    by (simp add: PATRON_DMY_def)
  have "\<And>m. m \<in> set (re_finditer PATRON_DMY l) \<Longrightarrow> group m 2 \<noteq> None"
    unfolding re_finditer_def using re_finditer_from_binds[OF _ b] by blast
  then show ?thesis
    unfolding fechas_dmy_def by (intro collect_ok) (auto split: option.splits)
qed

lemma fechas_mes_anio_ok: "\<exists>c. fechas_mes_anio l = Inr c"
proof -
  have b: "1 \<in> binds PATRON_MES_ANIO"
    by (simp add: PATRON_MES_ANIO_def)
  have "\<And>m. m \<in> set (re_finditer PATRON_MES_ANIO l) \<Longrightarrow> group m 1 \<noteq> None"
    unfolding re_finditer_def using re_finditer_from_binds[OF _ b] by blast
  then show ?thesis
    unfolding fechas_mes_anio_def by (intro collect_ok) (auto split: option.splits)
qed

lemma fechas_rango_ok: "\<exists>c. fechas_rango l = Inr c"
proof (cases "re_search PATRON_RANGO l")
  case None
  then show ?thesis by (simp add: fechas_rango_def)
next
  case (Some m)
  have "1 \<in> binds PATRON_RANGO" "2 \<in> binds PATRON_RANGO"
    by (simp_all add: PATRON_RANGO_def)
  with Some have "group m 1 \<noteq> None" "group m 2 \<noteq> None"
    unfolding re_search_def using re_search_from_binds by blast+
  with Some show ?thesis by (auto simp: fechas_rango_def)
qed

text \<open>The date extractor raises no exception.\<close>

lemma extraer_fechas_de_linea_ok: "\<exists>fechas es_actual. extraer_fechas_de_linea l = Inr (fechas, es_actual)"
proof -
  obtain c1 c2 c3 where "fechas_dmy l = Inr c1" "fechas_rango l = Inr c2" "fechas_mes_anio l = Inr c3"
    using fechas_dmy_ok fechas_rango_ok fechas_mes_anio_ok by blast
  then show ?thesis
    by (simp add: extraer_fechas_de_linea_def Let_def)
qed





section \<open>The experience reconstructor\<close>

lemma enriquecer_con_empresa:
  assumes "list_all (\<lambda>t. truthy (empresa t)) ts"
  shows "enriquecer_trabajos_con_nlp env ts texto = ts"
proof -
  have "map (enriquecer_trabajo env orgs texto) ts = ts" for orgs
    using assms by (induction ts) (simp_all add: enriquecer_trabajo_def)
  then show ?thesis
    by (simp add: enriquecer_trabajos_con_nlp_def Let_def)
qed

lemma cerrados_sulicor:
  "trabajos_cerrados env now (u ''SULICOR SAS  04-2025  12-2025'') =
     Inr [\<lparr>empresa = Some (u ''SULICOR SAS''), cargo = None,
           fecha_inicio = Some (u ''2025-04''), fecha_fin = Some (u ''2025-12''),
           duracion_meses = Some 8, responsabilidades = []\<rparr>]"
  by code_simp

text \<open>
  C3. Whatever the state of the enrichment and the current date, the line
  \<open>SULICOR SAS  04-2025  12-2025\<close> gives exactly one job: company \<open>SULICOR SAS\<close>, no
  title, start \<open>2025-04\<close>, end \<open>2025-12\<close>, eight months, no responsibility.
\<close>

theorem parsear_experiencia_sulicor:
  "parsear_experiencia env now (u ''SULICOR SAS  04-2025  12-2025'') =
     Inr [\<lparr>empresa = Some (u ''SULICOR SAS''), cargo = None,
           fecha_inicio = Some (u ''2025-04''), fecha_fin = Some (u ''2025-12''),
           duracion_meses = Some 8, responsabilidades = []\<rparr>]"
proof -
  have s: "py_strip (u ''SULICOR SAS  04-2025  12-2025'') \<noteq> []"
    by code_simp
  have t: "truthy (Some (u ''SULICOR SAS''))"
    by code_simp
  show ?thesis
    using s t by (simp add: parsear_experiencia_def cerrados_sulicor enriquecer_con_empresa)
qed


section \<open>The section segmenter\<close>
















section \<open>The contact extractor\<close>













end
